theory Spec2Isabelle
  imports Main "HOL-Library.Sublist"
begin

section \<open>Values and plain objects\<close>

text \<open>
  The assembler never inspects the values it is given: it only stores them under a key and
  passes them on. A JavaScript value is modelled as a tree; a plain object is the list of
  its own enumerable properties in enumeration order (the order of \<^verbatim>\<open>for ... in\<close>).
\<close>

datatype jsval =
    JUndefined
  | JNull
  | JBool bool
  | JNum int
  | JStr string
  | JArr "jsval list"
  | JObj "(string \<times> jsval) list"

type_synonym obj = "(string \<times> jsval) list"

definition keys :: "obj \<Rightarrow> string list" where
  "keys ob = map fst ob"

text \<open>
  The assignment \<^verbatim>\<open>ob[k] = v\<close>: an existing property keeps its place and gets the new
  value, a new property comes last.
\<close>

fun set_property :: "obj \<Rightarrow> string \<Rightarrow> jsval \<Rightarrow> obj" where
  "set_property [] k v = [(k, v)]"
| "set_property ((k', v') # rest) k v =
     (if k' = k then (k, v) # rest else (k', v') # set_property rest k v)"

section \<open>Errors/NeogmaNotFoundError.ts\<close>

text \<open>
  \<^verbatim>\<open>this.message = message || 'neogma not found error'; this.data = data;\<close>
  The two fields are assigned after the call of the parent constructor, so their final
  values are the ones computed here. An absent argument is \<open>None\<close>; the only falsy string
  is the empty one.
\<close>

record NeogmaNotFoundError =
  message :: string
  data :: "obj option"

definition new_NeogmaNotFoundError :: "string option \<Rightarrow> obj option \<Rightarrow> NeogmaNotFoundError" where
  "new_NeogmaNotFoundError msg dat =
     \<lparr> message =
         (case msg of
            None \<Rightarrow> ''neogma not found error''
          | Some s \<Rightarrow> if s = [] then ''neogma not found error'' else s),
       data = dat \<rparr>"

section \<open>QueryRunner/Where: the BindParam registry\<close>

text \<open>
  BindParam instances are mutable objects that the caller and the assembler may share, so
  they live in a store: an address is an index into the list of all instances allocated
  so far, and every method takes the store and returns the updated one. A reference held
  by a running program always points to an allocated instance (\<open>a < length h\<close>).

  The module \<^verbatim>\<open>./Where\<close> that declares the class is not among the available sources;
  its methods are modelled from the documented contract.
\<close>

type_synonym addr = nat
type_synonym heap = "obj list"

text \<open>
  Modelled from the spec: one decimal digit of the integer suffix of a derived parameter
  name (the source of BindParam is missing).
\<close>

definition digit_char :: "nat \<Rightarrow> char" where
  "digit_char d = char_of (48 + d)"

text \<open>
  Modelled from the spec: the integer suffix of a derived parameter name, written in
  decimal without leading zeros (the source of BindParam is missing).
\<close>

function string_of_nat :: "nat \<Rightarrow> string" where
  "string_of_nat n =
     (if n < 10 then [digit_char n]
      else string_of_nat (n div 10) @ [digit_char (n mod 10)])"
  by pat_completeness auto
termination
  by (relation "measure id") auto

declare string_of_nat.simps [simp del]

text \<open>
  Modelled from the spec: "derives a unique variant deterministically (e.g. append the
  smallest unused integer suffix)". The search counts up from \<open>n\<close> until the suffixed name
  is unused (the source of BindParam is missing); it ends because only finitely many
  names are taken.
\<close>

function first_free :: "string list \<Rightarrow> string \<Rightarrow> nat \<Rightarrow> nat" where
  "first_free ks name n =
     (if name @ string_of_nat n \<in> set ks then first_free ks name (Suc n) else n)"
  by pat_completeness auto
termination
proof (relation "measure (\<lambda>(ks, name, n). card {m. n \<le> m \<and> name @ string_of_nat m \<in> set ks})")
  show "wf (measure (\<lambda>(ks, name, n). card {m. n \<le> m \<and> name @ string_of_nat m \<in> set ks}))"
    by simp
next
  fix ks :: "string list" and name :: string and n :: nat
  assume used: "name @ string_of_nat n \<in> set ks"
  txt \<open>Two digits with the same character are equal.\<close>
  have digit: "a = b" if "a < 10" "b < 10" "digit_char a = digit_char b" for a b
  proof -
    from that(3) have "(of_char (digit_char a) :: nat) = of_char (digit_char b)"
      by (rule arg_cong)
    then have "(48 + a) mod 256 = (48 + b) mod 256"
      by (simp only: digit_char_def of_char_of)
    moreover have "(48 + a) mod 256 = 48 + a" using that(1) by (intro mod_less) arith
    moreover have "(48 + b) mod 256 = 48 + b" using that(2) by (intro mod_less) arith
    ultimately show "a = b" by arith
  qed
  have nonempty: "string_of_nat k \<noteq> []" for k
    by (subst string_of_nat.simps) simp
  have small: "string_of_nat k = [digit_char k]" if "k < 10" for k
    using that by (subst string_of_nat.simps) simp
  have large: "string_of_nat k = string_of_nat (k div 10) @ [digit_char (k mod 10)]"
    if "\<not> k < 10" for k
    using that by (subst string_of_nat.simps) simp
  txt \<open>The decimal rendering is injective, by induction along its own recursion.\<close>
  have render_inj: "i = j" if "string_of_nat i = string_of_nat j" for i j
    using that
  proof (induction i arbitrary: j rule: string_of_nat.induct)
    case (1 i)
    show ?case
    proof (cases "i < 10")
      case True
      show ?thesis
      proof (cases "j < 10")
        case j: True
        from "1.prems" have "digit_char i = digit_char j" by (simp add: small True j)
        with True j show ?thesis by (rule digit)
      next
        case j: False
        from "1.prems" have "string_of_nat (j div 10) = []"
          by (simp add: small[OF True] large[OF j])
        with nonempty show ?thesis by blast
      qed
    next
      case False
      show ?thesis
      proof (cases "j < 10")
        case j: True
        from "1.prems" have "string_of_nat (i div 10) = []"
          by (simp add: small[OF j] large[OF False])
        with nonempty show ?thesis by blast
      next
        case j: False
        from "1.prems" have e1: "string_of_nat (i div 10) = string_of_nat (j div 10)"
          and e2: "digit_char (i mod 10) = digit_char (j mod 10)"
          by (simp_all add: large[OF False] large[OF j])
        from "1.IH"[OF False e1] have d: "i div 10 = j div 10" .
        have "i mod 10 = j mod 10" by (rule digit[OF _ _ e2]) simp_all
        with d show ?thesis using div_mult_mod_eq[of i 10] div_mult_mod_eq[of j 10] by arith
      qed
    qed
  qed
  have "inj (\<lambda>m. name @ string_of_nat m)"
    by (rule injI) (simp add: render_inj)
  then have "finite ((\<lambda>m. name @ string_of_nat m) -` set ks)"
    by (intro finite_vimageI) simp_all
  moreover
  let ?A = "\<lambda>i. {m. i \<le> m \<and> name @ string_of_nat m \<in> set ks}"
  have "?A n \<subseteq> (\<lambda>m. name @ string_of_nat m) -` set ks" by auto
  ultimately have fin: "finite (?A n)" by (rule rev_finite_subset)
  have "n \<in> ?A n" "n \<notin> ?A (Suc n)" using used by auto
  moreover have "?A (Suc n) \<subseteq> ?A n" by auto
  ultimately have "?A (Suc n) \<subset> ?A n" by blast
  with fin have "card (?A (Suc n)) < card (?A n)" by (rule psubset_card_mono)
  then show "((ks, name, Suc n), (ks, name, n))
      \<in> measure (\<lambda>(ks, name, n). card {m. n \<le> m \<and> name @ string_of_nat m \<in> set ks})"
    by simp
qed

declare first_free.simps [simp del]

text \<open>
  Modelled from the spec: the name under which \<open>getUniqueNameAndAdd\<close> stores a value:
  the preferred name when it is free, else the preferred name followed by the smallest
  unused integer suffix (the source of BindParam is missing).
\<close>

definition getUniqueName :: "obj \<Rightarrow> string \<Rightarrow> string" where
  "getUniqueName bind name =
     (if name \<in> set (keys bind)
      then name @ string_of_nat (first_free (keys bind) name 0)
      else name)"

text \<open>
  Modelled from the spec: \<open>get()\<close> "returns the current mapping, suitable for direct
  submission as query parameters" (the source of BindParam is missing).
\<close>

definition BindParam_get :: "heap \<Rightarrow> addr \<Rightarrow> obj" where
  "BindParam_get h a = h ! a"

text \<open>
  Modelled from the spec: a BindParam is "created empty or seeded from an existing
  mapping"; the new instance gets the next address and its own copy of the entries (the
  source of BindParam is missing).
\<close>

definition new_BindParam :: "heap \<Rightarrow> obj \<Rightarrow> addr \<times> heap" where
  "new_BindParam h seed = (length h, h @ [seed])"

text \<open>
  Modelled from the spec: what \<open>acquire\<close> can be given: a registry instance, a plain
  mapping, or nothing (the source of BindParam is missing).
\<close>

datatype acquire_arg = Instance addr | Plain obj | Missing

text \<open>
  Modelled from the spec: \<open>acquire(existingOrPlain)\<close> "returns the given registry unchanged
  if already a registry instance; otherwise wraps a plain mapping into a new registry
  ... a missing argument yields a fresh empty registry" (the source of BindParam is
  missing).
\<close>

definition BindParam_acquire :: "heap \<Rightarrow> acquire_arg \<Rightarrow> addr \<times> heap" where
  "BindParam_acquire h arg =
     (case arg of
        Instance a \<Rightarrow> (a, h)
      | Plain m \<Rightarrow> new_BindParam h m
      | Missing \<Rightarrow> new_BindParam h [])"

text \<open>
  Modelled from the spec: \<open>clone()\<close> "returns a new registry with an independent copy of
  all current entries" (the source of BindParam is missing).
\<close>

definition BindParam_clone :: "heap \<Rightarrow> addr \<Rightarrow> addr \<times> heap" where
  "BindParam_clone h a = new_BindParam h (BindParam_get h a)"

text \<open>
  Modelled from the spec: \<open>getUniqueNameAndAdd(preferredName, value)\<close> "if preferredName is
  free, stores it under that exact name; otherwise derives a unique variant ... and stores
  under that; returns the name actually used". The instance at \<open>a\<close> is updated in place
  (the source of BindParam is missing).
\<close>

definition getUniqueNameAndAdd :: "heap \<Rightarrow> addr \<Rightarrow> string \<Rightarrow> jsval \<Rightarrow> string \<times> heap" where
  "getUniqueNameAndAdd h a name v =
     (let n = getUniqueName (h ! a) name
      in (n, h[a := set_property (h ! a) n v]))"

text \<open>
  Modelled from the spec: \<open>add(values)\<close> "merges a plain mapping of field\<rightarrow>value into the
  registry, generating fresh unique keys for colliding field names; returns the registry
  (chainable)" (the source of BindParam is missing).
\<close>

fun BindParam_add :: "heap \<Rightarrow> addr \<Rightarrow> obj \<Rightarrow> addr \<times> heap" where
  "BindParam_add h a [] = (a, h)"
| "BindParam_add h a ((field, v) # rest) =
     BindParam_add (snd (getUniqueNameAndAdd h a field v)) a rest"

section \<open>QueryRunner/QueryRunner.ts\<close>

text \<open>
  A Where clause as the assembler reads it: the expression text and the reference to its
  BindParam. The interface is declared in \<^verbatim>\<open>./Where\<close>; the two fields are the ones
  QueryRunner uses (\<^verbatim>\<open>where.statement\<close>, \<^verbatim>\<open>where.bindParam\<close>).
\<close>

record WhereStatementI =
  statement :: string
  bindParam :: addr

datatype direction = DirOut | DirIn | DirNone

record RelationshipI =
  rel_label :: string
  rel_direction :: direction
  rel_values :: "obj option"

text \<open>
  \<^verbatim>\<open>where\<close> is required by the interface, but types are erased when the code runs: a caller
  can still leave it out, which is \<open>None\<close> here.
\<close>

record CreateRelationshipParamsI =
  a_label :: string
  b_label :: string
  relationship :: RelationshipI
  where_clause :: "WhereStatementI option"

datatype error = TypeError

text \<open>What an operation hands to \<^verbatim>\<open>session.run\<close> (and to the logger before it).\<close>

record session_run =
  run_statement :: string
  run_parameters :: obj

abbreviation nl :: string where
  "nl \<equiv> [CHR 0x0A]"

definition getLabel :: "string \<Rightarrow> string" where
  "getLabel label = ''`'' @ label @ ''`''"

definition createMany :: "string \<Rightarrow> jsval list \<Rightarrow> session_run" where
  "createMany nodesLabel options =
     (let label = getLabel nodesLabel;
          stmt = nl @ ''            UNWIND {options} as '' @ label
              @ nl @ ''            CREATE (node: '' @ label @ '')''
              @ nl @ ''            SET node = '' @ label
              @ nl @ ''            RETURN '' @ label @ '';''
              @ nl @ ''        '';
          parameters = [(''options'', JArr options)]
      in \<lparr> run_statement = stmt, run_parameters = parameters \<rparr>)"

definition editMany ::
  "heap \<Rightarrow> string \<Rightarrow> obj \<Rightarrow> WhereStatementI option \<Rightarrow> heap \<times> session_run" where
  "editMany h nodesLabel options whr =
     (let label = getLabel nodesLabel;
          stmt0 = nl @ ''            MATCH ('' @ label @ '': '' @ label @ '')''
              @ nl @ ''        '';
          stmt1 = (case whr of None \<Rightarrow> stmt0 | Some w \<Rightarrow> stmt0 @ ''WHERE '' @ statement w);
          stmt2 = stmt1
              @ nl @ ''            SET '' @ label @ '' += { options }''
              @ nl @ ''            return '' @ label
              @ nl @ ''        '';
          (a0, h0) = BindParam_acquire h
              (case whr of None \<Rightarrow> Missing | Some w \<Rightarrow> Instance (bindParam w));
          (a1, h1) = BindParam_clone h0 a0;
          (a2, h2) = BindParam_add h1 a1 options;
          parameters = BindParam_get h2 a2
      in (h2, \<lparr> run_statement = stmt2, run_parameters = parameters \<rparr>))"

definition deleteMany :: "heap \<Rightarrow> string \<Rightarrow> WhereStatementI option \<Rightarrow> session_run" where
  "deleteMany h nodesLabel whr =
     (let label = getLabel nodesLabel;
          stmt0 = nl @ ''            MATCH ('' @ label @ '': '' @ label @ '')''
              @ nl @ ''        '';
          stmt1 = (case whr of None \<Rightarrow> stmt0 | Some w \<Rightarrow> stmt0 @ ''WHERE '' @ statement w);
          stmt2 = stmt1
              @ nl @ ''            OPTIONAL MATCH ('' @ label @ '')-[r]-()''
              @ nl @ ''            DELETE '' @ label @ '',r''
              @ nl @ ''        '';
          parameters = (case whr of None \<Rightarrow> [] | Some w \<Rightarrow> BindParam_get h (bindParam w))
      in \<lparr> run_statement = stmt2, run_parameters = parameters \<rparr>)"

definition directionString :: "RelationshipI \<Rightarrow> string" where
  "directionString rel =
     (if rel_direction rel = DirIn then ''<-'' else ''-'')
     @ ''[r:'' @ getLabel (rel_label rel) @ '']''
     @ (if rel_direction rel = DirOut then ''->'' else ''-'')"

fun join :: "string \<Rightarrow> string list \<Rightarrow> string" where
  "join sep [] = []"
| "join sep [x] = x"
| "join sep (x # y # ys) = x @ sep @ join sep (y # ys)"

text \<open>
  The call \<^verbatim>\<open>ob.hasOwnProperty(key)\<close>. The method is looked up on the object itself first:
  an own property named \<open>hasOwnProperty\<close> hides the inherited method, and as the values
  here are data and never functions, calling it raises a TypeError. Otherwise the
  inherited method tells whether \<open>key\<close> is an own property.
\<close>

definition hasOwnProperty :: "obj \<Rightarrow> string \<Rightarrow> error + bool" where
  "hasOwnProperty ob key =
     (if ''hasOwnProperty'' \<in> set (keys ob) then Inl TypeError
      else Inr (key \<in> set (keys ob)))"

text \<open>
  The loop over the properties of \<^verbatim>\<open>relationship.values\<close> (\<open>vals\<close>; \<open>todo\<close> are the
  properties still to visit): a key that is not an own property is skipped, each other
  value is stored under a name derived from its key, and the assignment text refers to
  the name that came back. An exception ends the loop with the store as it then is.
\<close>

fun relationshipValues_loop ::
  "heap \<Rightarrow> addr \<Rightarrow> obj \<Rightarrow> obj \<Rightarrow> string list \<Rightarrow> heap \<times> (error + string list)" where
  "relationshipValues_loop h a vals [] acc = (h, Inr acc)"
| "relationshipValues_loop h a vals ((key, v) # rest) acc =
     (case hasOwnProperty vals key of
        Inl e \<Rightarrow> (h, Inl e)
      | Inr own \<Rightarrow>
          if \<not> own then relationshipValues_loop h a vals rest acc
          else
            (let (paramName, h') = getUniqueNameAndAdd h a key v
             in relationshipValues_loop h' a vals rest
                  (acc @ [''r.'' @ key @ '' = {'' @ paramName @ ''}''])))"

text \<open>
  The result is the store after the call together with either the exception that ended
  it or what was handed to run.
\<close>

definition createRelationship ::
  "heap \<Rightarrow> CreateRelationshipParamsI \<Rightarrow> heap \<times> (error + session_run)" where
  "createRelationship h params =
     (let rel = relationship params;
          dirStr = directionString rel
      in case where_clause params of
           None \<Rightarrow> (h, Inl TypeError)
         | Some w \<Rightarrow>
             (let (a0, h0) = BindParam_acquire h (Instance (bindParam w));
                  (a1, h1) = BindParam_clone h0 a0;
                  (relationshipAttributesParams, h2) = new_BindParam h1 (BindParam_get h1 a1);
                  (h3, looped) =
                    (case rel_values rel of
                       None \<Rightarrow> (h2, Inr [])
                     | Some vs \<Rightarrow>
                         relationshipValues_loop h2 relationshipAttributesParams vs vs [])
              in case looped of
                   Inl e \<Rightarrow> (h3, Inl e)
                 | Inr relationshipValues \<Rightarrow>
                     (let relationshipValuesStatement =
                            (if relationshipValues \<noteq> []
                             then ''SET '' @ join '', '' relationshipValues
                             else []);
                          stmt = nl @ ''            MATCH (a:'' @ getLabel (a_label params)
                              @ ''), (b:'' @ getLabel (b_label params) @ '')''
                              @ nl @ ''            WHERE '' @ statement w
                              @ nl @ ''            CREATE (a)'' @ dirStr @ ''(b)''
                              @ nl @ ''            '' @ relationshipValuesStatement
                              @ nl @ ''        '';
                          parameters = BindParam_get h3 relationshipAttributesParams
                      in (h3, Inr \<lparr> run_statement = stmt, run_parameters = parameters \<rparr>))))"

section \<open>Auxiliary functions for the proofs\<close>

text \<open>
  The registry's content after a sequence of additions, and the names the additions
  were stored under, as functions of the content alone. They are not part of the program:
  the lemmas below show that the stateful operations compute them.
\<close>

fun add_entries :: "obj \<Rightarrow> obj \<Rightarrow> obj" where
  "add_entries bind [] = bind"
| "add_entries bind ((field, v) # rest) =
     add_entries (set_property bind (getUniqueName bind field) v) rest"




section \<open>The registry: fresh names and stored entries\<close>

lemma set_property_fresh: "k \<notin> set (keys ob) \<Longrightarrow> set_property ob k v = ob @ [(k, v)]"
  by (induction ob) (auto simp: keys_def)

lemma first_free_unused: "name @ string_of_nat (first_free ks name n) \<notin> set ks"
proof (induction ks name n rule: first_free.induct)
  case (1 ks name n)
  show ?case
  proof (cases "name @ string_of_nat n \<in> set ks")
    case True
    then have "first_free ks name n = first_free ks name (Suc n)"
      by (subst first_free.simps) simp
    with "1.IH"[OF True] show ?thesis by simp
  next
    case False
    then have "first_free ks name n = n" by (subst first_free.simps) simp
    with False show ?thesis by simp
  qed
qed

lemma first_free_least: "n \<le> m \<Longrightarrow> m < first_free ks name n \<Longrightarrow> name @ string_of_nat m \<in> set ks"
proof (induction ks name n rule: first_free.induct)
  case (1 ks name n)
  show ?case
  proof (cases "name @ string_of_nat n \<in> set ks")
    case True
    then have e: "first_free ks name n = first_free ks name (Suc n)"
      by (subst first_free.simps) simp
    show ?thesis
    proof (cases "m = n")
      case True
      with \<open>name @ string_of_nat n \<in> set ks\<close> show ?thesis by simp
    next
      case False
      with "1.prems" e have "Suc n \<le> m" "m < first_free ks name (Suc n)" by simp_all
      then show ?thesis by (rule "1.IH"[OF True])
    qed
  next
    case False
    then have "first_free ks name n = n" by (subst first_free.simps) simp
    with "1.prems" show ?thesis by simp
  qed
qed

lemma getUniqueName_fresh: "getUniqueName bind name \<notin> set (keys bind)"
  by (simp add: getUniqueName_def first_free_unused)

lemma getUniqueName_free: "name \<notin> set (keys bind) \<Longrightarrow> getUniqueName bind name = name"
  by (simp add: getUniqueName_def)

lemma getUniqueNameAndAdd_eq:
  "getUniqueNameAndAdd h a name v =
     (getUniqueName (h ! a) name, h[a := h ! a @ [(getUniqueName (h ! a) name, v)]])"
  by (simp add: getUniqueNameAndAdd_def Let_def set_property_fresh getUniqueName_fresh)




lemma BindParam_add_eq:
  "a < length h \<Longrightarrow> BindParam_add h a vs = (a, h[a := add_entries (h ! a) vs])"
proof (induction vs arbitrary: h)
  case Nil
  then show ?case by simp
next
  case (Cons kv vs)
  obtain k v where kv: "kv = (k, v)" by (cases kv)
  let ?h = "snd (getUniqueNameAndAdd h a k v)"
  have h': "?h = h[a := set_property (h ! a) (getUniqueName (h ! a) k) v]"
    by (simp add: getUniqueNameAndAdd_def Let_def)
  with Cons.prems have len: "a < length ?h" by simp
  from Cons.IH[OF len] h' Cons.prems show ?case by (simp add: kv)
qed




lemma map_of_fresh_last:
  "k \<notin> set (keys ob) \<Longrightarrow> map_of (ob @ [(k, v)]) k = Some v"
  by (simp add: keys_def map_add_def map_of_eq_None_iff[THEN iffD2])

lemma map_of_old_kept:
  "k \<in> set (keys ob) \<Longrightarrow> map_of (ob @ extra) k = map_of ob k"
proof -
  assume "k \<in> set (keys ob)"
  then have "map_of ob k \<noteq> None" by (simp add: keys_def map_of_eq_None_iff)
  then obtain x where "map_of ob k = Some x" by blast
  then show ?thesis by (simp add: map_add_def)
qed



section \<open>What the operations compute\<close>



lemma editMany_None:
  "editMany h nodesLabel options None =
     (h @ [[], add_entries [] options],
      \<lparr> run_statement =
          nl @ ''            MATCH (`'' @ nodesLabel @ ''`: `'' @ nodesLabel @ ''`)''
          @ nl @ ''        ''
          @ nl @ ''            SET `'' @ nodesLabel @ ''` += { options }''
          @ nl @ ''            return `'' @ nodesLabel @ ''`''
          @ nl @ ''        '',
        run_parameters = add_entries [] options \<rparr>)"
  by (simp add: editMany_def BindParam_acquire_def BindParam_clone_def new_BindParam_def
      BindParam_get_def BindParam_add_eq getLabel_def nth_append)

lemma editMany_Some:
  "editMany h nodesLabel options (Some w) =
     (h @ [add_entries (h ! bindParam w) options],
      \<lparr> run_statement =
          nl @ ''            MATCH (`'' @ nodesLabel @ ''`: `'' @ nodesLabel @ ''`)''
          @ nl @ ''        ''
          @ ''WHERE '' @ statement w
          @ nl @ ''            SET `'' @ nodesLabel @ ''` += { options }''
          @ nl @ ''            return `'' @ nodesLabel @ ''`''
          @ nl @ ''        '',
        run_parameters = add_entries (h ! bindParam w) options \<rparr>)"
  by (simp add: editMany_def BindParam_acquire_def BindParam_clone_def new_BindParam_def
      BindParam_get_def BindParam_add_eq getLabel_def nth_append)




text \<open>
  An attribute object \<open>{hasOwnProperty: 5}\<close>: the first round of the loop calls the number
  5, and the operation ends with the TypeError after the two copies of the registry were
  made.
\<close>

lemma createRelationship_hasOwnProperty_example:
  "createRelationship [[(''id'', JNum 1)]]
     \<lparr> a_label = ''Person'', b_label = ''Movie'',
       relationship = \<lparr> rel_label = ''ACTED_IN'', rel_direction = DirOut,
                        rel_values = Some [(''hasOwnProperty'', JNum 5)] \<rparr>,
       where_clause = Some \<lparr> statement = ''a.id = {id}'', bindParam = 0 \<rparr> \<rparr>
   = ([[(''id'', JNum 1)], [(''id'', JNum 1)], [(''id'', JNum 1)]], Inl TypeError)"
  by code_simp

section \<open>The not-found error\<close>

text \<open>
  C10: constructing a NeogmaNotFoundError with an absent or an empty (falsy) message gives
  the message \<open>neogma not found error\<close>; a non-empty message is stored as given; the data
  payload is stored as passed, absent or not.
\<close>

theorem NeogmaNotFoundError_message_default:
  "message (new_NeogmaNotFoundError None d) = ''neogma not found error''
   \<and> message (new_NeogmaNotFoundError (Some []) d) = ''neogma not found error''
   \<and> (s \<noteq> [] \<longrightarrow> message (new_NeogmaNotFoundError (Some s) d) = s)
   \<and> data (new_NeogmaNotFoundError m d) = d"
  by (simp add: new_NeogmaNotFoundError_def)

theorem NeogmaNotFoundError_message_default_witness:
  "message (new_NeogmaNotFoundError (Some ''no such node'') (Some [(''id'', JNum 7)]))
     = ''no such node''
   \<and> data (new_NeogmaNotFoundError (Some ''no such node'') (Some [(''id'', JNum 7)]))
     = Some [(''id'', JNum 7)]
   \<and> message (new_NeogmaNotFoundError None (Some [(''id'', JNum 7)])) = ''neogma not found error''"
  using NeogmaNotFoundError_message_default
    [where s = "''no such node''" and d = "Some [(''id'', JNum 7)]"
       and m = "Some ''no such node''"]
  by simp

section \<open>Bulk create\<close>

text \<open>
  C5, as the code has it: for every label and every list of value objects, createMany
  submits exactly the parameters \<open>{ options: <the list> }\<close>, and its statement is the fixed
  text that unwinds \<open>{options}\<close> under the label in backticks, creates a node of that label
  under the name \<open>node\<close> for the item, sets the node from the item, and returns what the
  label in backticks names: the unwound item, not \<open>node\<close>.
\<close>

theorem createMany_unwind_create:
  "run_parameters (createMany nodesLabel options) = [(''options'', JArr options)]
   \<and> run_statement (createMany nodesLabel options) =
       nl @ ''            UNWIND {options} as `'' @ nodesLabel @ ''`''
       @ nl @ ''            CREATE (node: `'' @ nodesLabel @ ''`)''
       @ nl @ ''            SET node = `'' @ nodesLabel @ ''`''
       @ nl @ ''            RETURN `'' @ nodesLabel @ ''`;''
       @ nl @ ''        ''"
  by (simp add: createMany_def getLabel_def)

theorem createMany_unwind_create_witness:
  "run_parameters (createMany ''Person''
       [JObj [(''name'', JStr ''a'')], JObj [(''name'', JStr ''b'')]])
     = [(''options'', JArr [JObj [(''name'', JStr ''a'')], JObj [(''name'', JStr ''b'')]])]"
  using createMany_unwind_create
    [of "''Person''" "[JObj [(''name'', JStr ''a'')], JObj [(''name'', JStr ''b'')]]"]
  by simp

text \<open>
  For the label \<open>Person\<close> the created node is bound to \<open>node\<close>, the RETURN clause names
  \<open>`Person`\<close>, the alias that UNWIND gave to the item, and the statement nowhere returns
  \<open>node\<close>.
\<close>

theorem createMany_unwind_create_counterexample:
  "sublist ''UNWIND {options} as `Person`''
     (run_statement (createMany ''Person''
        [JObj [(''name'', JStr ''a'')], JObj [(''name'', JStr ''b'')]]))
   \<and> sublist ''CREATE (node: `Person`)''
     (run_statement (createMany ''Person''
        [JObj [(''name'', JStr ''a'')], JObj [(''name'', JStr ''b'')]]))
   \<and> sublist ''RETURN `Person`;''
     (run_statement (createMany ''Person''
        [JObj [(''name'', JStr ''a'')], JObj [(''name'', JStr ''b'')]]))
   \<and> \<not> sublist ''RETURN node''
     (run_statement (createMany ''Person''
        [JObj [(''name'', JStr ''a'')], JObj [(''name'', JStr ''b'')]]))"
  by code_simp

section \<open>The direction of a relationship\<close>



section \<open>The filter clause\<close>

text \<open>
  C7: editMany and deleteMany put a filter into the statement exactly when a Where clause is
  given: without one the statement is the MATCH followed directly by the rest, with no
  filter text (for a label without the letter \<open>W\<close> the letter does not occur in the
  statement at all); with one, \<open>WHERE\<close> and the clause's expression text stand between the
  MATCH and the rest.
\<close>

theorem where_text_only_with_where:
  "run_statement (snd (editMany h nodesLabel options None)) =
       nl @ ''            MATCH (`'' @ nodesLabel @ ''`: `'' @ nodesLabel @ ''`)''
       @ nl @ ''        ''
       @ nl @ ''            SET `'' @ nodesLabel @ ''` += { options }''
       @ nl @ ''            return `'' @ nodesLabel @ ''`''
       @ nl @ ''        ''
   \<and> run_statement (snd (editMany h nodesLabel options (Some w))) =
       nl @ ''            MATCH (`'' @ nodesLabel @ ''`: `'' @ nodesLabel @ ''`)''
       @ nl @ ''        ''
       @ ''WHERE '' @ statement w
       @ nl @ ''            SET `'' @ nodesLabel @ ''` += { options }''
       @ nl @ ''            return `'' @ nodesLabel @ ''`''
       @ nl @ ''        ''
   \<and> run_statement (deleteMany h nodesLabel None) =
       nl @ ''            MATCH (`'' @ nodesLabel @ ''`: `'' @ nodesLabel @ ''`)''
       @ nl @ ''        ''
       @ nl @ ''            OPTIONAL MATCH (`'' @ nodesLabel @ ''`)-[r]-()''
       @ nl @ ''            DELETE `'' @ nodesLabel @ ''`,r''
       @ nl @ ''        ''
   \<and> run_statement (deleteMany h nodesLabel (Some w)) =
       nl @ ''            MATCH (`'' @ nodesLabel @ ''`: `'' @ nodesLabel @ ''`)''
       @ nl @ ''        ''
       @ ''WHERE '' @ statement w
       @ nl @ ''            OPTIONAL MATCH (`'' @ nodesLabel @ ''`)-[r]-()''
       @ nl @ ''            DELETE `'' @ nodesLabel @ ''`,r''
       @ nl @ ''        ''
   \<and> (CHR ''W'' \<notin> set nodesLabel \<longrightarrow>
        CHR ''W'' \<notin> set (run_statement (snd (editMany h nodesLabel options None)))
        \<and> CHR ''W'' \<notin> set (run_statement (deleteMany h nodesLabel None)))"
proof -
  have e: "run_statement (snd (editMany h nodesLabel options None)) =
       nl @ ''            MATCH (`'' @ nodesLabel @ ''`: `'' @ nodesLabel @ ''`)''
       @ nl @ ''        ''
       @ nl @ ''            SET `'' @ nodesLabel @ ''` += { options }''
       @ nl @ ''            return `'' @ nodesLabel @ ''`''
       @ nl @ ''        ''"
    by (simp add: editMany_None)
  have d: "run_statement (deleteMany h nodesLabel None) =
       nl @ ''            MATCH (`'' @ nodesLabel @ ''`: `'' @ nodesLabel @ ''`)''
       @ nl @ ''        ''
       @ nl @ ''            OPTIONAL MATCH (`'' @ nodesLabel @ ''`)-[r]-()''
       @ nl @ ''            DELETE `'' @ nodesLabel @ ''`,r''
       @ nl @ ''        ''"
    by (simp add: deleteMany_def getLabel_def)
  have e': "run_statement (snd (editMany h nodesLabel options (Some w))) =
       nl @ ''            MATCH (`'' @ nodesLabel @ ''`: `'' @ nodesLabel @ ''`)''
       @ nl @ ''        ''
       @ ''WHERE '' @ statement w
       @ nl @ ''            SET `'' @ nodesLabel @ ''` += { options }''
       @ nl @ ''            return `'' @ nodesLabel @ ''`''
       @ nl @ ''        ''"
    by (simp add: editMany_Some)
  have d': "run_statement (deleteMany h nodesLabel (Some w)) =
       nl @ ''            MATCH (`'' @ nodesLabel @ ''`: `'' @ nodesLabel @ ''`)''
       @ nl @ ''        ''
       @ ''WHERE '' @ statement w
       @ nl @ ''            OPTIONAL MATCH (`'' @ nodesLabel @ ''`)-[r]-()''
       @ nl @ ''            DELETE `'' @ nodesLabel @ ''`,r''
       @ nl @ ''        ''"
    by (simp add: deleteMany_def getLabel_def)
  have w1: "CHR ''W'' \<notin> set nodesLabel \<Longrightarrow>
        CHR ''W'' \<notin> set (run_statement (snd (editMany h nodesLabel options None)))"
    by (simp only: e) simp
  have w2: "CHR ''W'' \<notin> set nodesLabel \<Longrightarrow>
        CHR ''W'' \<notin> set (run_statement (deleteMany h nodesLabel None))"
    by (simp only: d) simp
  from e e' d d' w1 w2 show ?thesis by blast
qed

theorem where_text_only_with_where_witness:
  "CHR ''W'' \<notin> set (run_statement (snd (editMany [] ''Person'' [(''age'', JNum 30)] None)))
   \<and> CHR ''W'' \<notin> set (run_statement (deleteMany [] ''Person'' None))
   \<and> run_statement (deleteMany [[(''id'', JNum 1)]] ''Person''
         (Some \<lparr> statement = ''`Person`.id = {id}'', bindParam = 0 \<rparr>)) =
       nl @ ''            MATCH (`Person`: `Person`)''
       @ nl @ ''        WHERE `Person`.id = {id}''
       @ nl @ ''            OPTIONAL MATCH (`Person`)-[r]-()''
       @ nl @ ''            DELETE `Person`,r''
       @ nl @ ''        ''"
  using where_text_only_with_where
    [where nodesLabel = "''Person''" and h = "[]" and options = "[(''age'', JNum 30)]"]
    where_text_only_with_where
    [where nodesLabel = "''Person''" and h = "[[(''id'', JNum 1)]]"
       and w = "\<lparr> statement = ''`Person`.id = {id}'', bindParam = 0 \<rparr>"]
  by simp

section \<open>A missing Where clause\<close>




section \<open>The caller's registry\<close>



section \<open>Bulk edit\<close>

text \<open>
  C1: the statement of editMany refers to the parameter \<open>options\<close>, but the parameters are
  built with \<^verbatim>\<open>add(options)\<close>, which merges the fields of the payload one by one. For the
  label \<open>Person\<close>, the payload \<open>{age: 30}\<close> and no Where clause the parameters are
  \<open>{age: 30}\<close>: there is no entry \<open>options\<close>.
\<close>

theorem editMany_options_parameter_missing:
  "run_parameters (snd (editMany [] ''Person'' [(''age'', JNum 30)] None)) = [(''age'', JNum 30)]
   \<and> map_of (run_parameters (snd (editMany [] ''Person'' [(''age'', JNum 30)] None))) ''options''
       = None
   \<and> run_statement (snd (editMany [] ''Person'' [(''age'', JNum 30)] None)) =
       nl @ ''            MATCH (`Person`: `Person`)''
       @ nl @ ''        ''
       @ nl @ ''            SET `Person` += { options }''
       @ nl @ ''            return `Person`''
       @ nl @ ''        ''"
  by (simp add: editMany_None getUniqueName_def keys_def)

section \<open>Two values under one preferred name\<close>

text \<open>
  C8: two values added to one registry under the same preferred name, through
  getUniqueNameAndAdd or through add, are stored under two different names, neither of
  which was in use; the first is the preferred name itself when that was free. Afterwards
  the registry holds its earlier entries followed by the two new ones, both values can be
  read back under their names, and every earlier name still reads as before.
\<close>

theorem BindParam_same_name_distinct:
  "a < length h \<Longrightarrow>
   (let (n1, h1) = getUniqueNameAndAdd h a name v1;
        (n2, h2) = getUniqueNameAndAdd h1 a name v2
    in n1 \<noteq> n2
       \<and> n1 \<notin> set (keys (BindParam_get h a))
       \<and> n2 \<notin> set (keys (BindParam_get h a))
       \<and> (name \<notin> set (keys (BindParam_get h a)) \<longrightarrow> n1 = name)
       \<and> BindParam_get h2 a = BindParam_get h a @ [(n1, v1), (n2, v2)]
       \<and> map_of (BindParam_get h2 a) n1 = Some v1
       \<and> map_of (BindParam_get h2 a) n2 = Some v2
       \<and> (\<forall>k \<in> set (keys (BindParam_get h a)).
             map_of (BindParam_get h2 a) k = map_of (BindParam_get h a) k)
       \<and> BindParam_add h a [(name, v1), (name, v2)] = (a, h2))"
proof -
  assume valid: "a < length h"
  define b0 where "b0 = h ! a"
  define n1 where "n1 = getUniqueName b0 name"
  define b1 where "b1 = b0 @ [(n1, v1)]"
  define n2 where "n2 = getUniqueName b1 name"
  define b2 where "b2 = b1 @ [(n2, v2)]"
  have s1: "getUniqueNameAndAdd h a name v1 = (n1, h[a := b1])"
    by (simp add: getUniqueNameAndAdd_eq b0_def n1_def b1_def)
  have at1: "h[a := b1] ! a = b1" using valid by simp
  have s2: "getUniqueNameAndAdd (h[a := b1]) a name v2 = (n2, h[a := b2])"
    by (simp add: getUniqueNameAndAdd_eq at1 n2_def b2_def)
  have f1: "n1 \<notin> set (keys b0)" unfolding n1_def by (rule getUniqueName_fresh)
  have f2: "n2 \<notin> set (keys b1)" unfolding n2_def by (rule getUniqueName_fresh)
  have k1: "keys b1 = keys b0 @ [n1]" by (simp add: b1_def keys_def)
  from f2 k1 have ne: "n1 \<noteq> n2" and f2': "n2 \<notin> set (keys b0)" by auto
  have g2: "BindParam_get (h[a := b2]) a = b0 @ [(n1, v1), (n2, v2)]"
    using valid by (simp add: BindParam_get_def b2_def b1_def)
  have m2: "map_of (b0 @ [(n1, v1), (n2, v2)]) n2 = Some v2"
    using map_of_fresh_last[OF f2, of v2] by (simp add: b1_def)
  have "map_of (b1 @ [(n2, v2)]) n1 = map_of b1 n1"
    by (rule map_of_old_kept) (simp add: k1)
  with map_of_fresh_last[OF f1, of v1] have m1: "map_of (b0 @ [(n1, v1), (n2, v2)]) n1 = Some v1"
    by (simp add: b1_def)
  have old: "\<forall>k \<in> set (keys b0). map_of (b0 @ [(n1, v1), (n2, v2)]) k = map_of b0 k"
    by (intro ballI map_of_old_kept)
  have free: "name \<notin> set (keys b0) \<longrightarrow> n1 = name"
    by (simp add: n1_def getUniqueName_free)
  have add: "BindParam_add h a [(name, v1), (name, v2)] = (a, h[a := b2])"
    by (simp add: s1 s2)
  have g0: "BindParam_get h a = b0" by (simp add: BindParam_get_def b0_def)
  show ?thesis
    unfolding s1 s2 Let_def prod.case g2 g0
    using ne f1 f2' free m1 m2 old add by blast
qed

theorem BindParam_same_name_distinct_witness:
  "getUniqueNameAndAdd [[(''id'', JNum 1)]] 0 ''id'' (JNum 2)
     = (''id0'', [[(''id'', JNum 1), (''id0'', JNum 2)]])
   \<and> getUniqueNameAndAdd [[(''id'', JNum 1), (''id0'', JNum 2)]] 0 ''id'' (JNum 3)
     = (''id1'', [[(''id'', JNum 1), (''id0'', JNum 2), (''id1'', JNum 3)]])
   \<and> BindParam_add [[(''id'', JNum 1)]] 0 [(''id'', JNum 2), (''id'', JNum 3)]
     = (0, [[(''id'', JNum 1), (''id0'', JNum 2), (''id1'', JNum 3)]])"
proof -
  have e1: "getUniqueNameAndAdd [[(''id'', JNum 1)]] 0 ''id'' (JNum 2)
     = (''id0'', [[(''id'', JNum 1), (''id0'', JNum 2)]])"
    by code_simp
  have e2: "getUniqueNameAndAdd [[(''id'', JNum 1), (''id0'', JNum 2)]] 0 ''id'' (JNum 3)
     = (''id1'', [[(''id'', JNum 1), (''id0'', JNum 2), (''id1'', JNum 3)]])"
    by code_simp
  have valid: "(0::nat) < length [[(''id'', JNum 1)]]" by simp
  from BindParam_same_name_distinct [OF valid, of "''id''" "JNum 2" "JNum 3"]
  show ?thesis by (simp add: e1 e2)
qed

section \<open>Relationship attributes\<close>




end
